theory Spec2Isabelle
  imports Main "HOL-Library.Word"
begin

section \<open>SemaphoresImpl: the semaphore facade\<close>

text \<open>
  \<^verbatim>\<open>SemaphoresImpl\<close> holds two collaborators, a \<^verbatim>\<open>SemaphoreDao\<close> and a
  \<^verbatim>\<open>SemaphoreUpdater\<close>, and forwards to them. Neither collaborator is part of the
  sources at hand, so the facade is modelled over arbitrary collaborators: every method
  of a collaborator is a function on a world \<open>'w\<close> that either returns a value
  (\<open>Inr\<close>) or throws (\<open>Inl\<close>), and in both cases hands back the world it left behind.
  A Java \<^verbatim>\<open>int\<close> is a 32-bit word; the semaphore object returned by the DAO is a type
  parameter \<open>'s\<close>, the thrown exceptions are a type parameter \<open>'e\<close>.
\<close>

type_synonym jint = "32 word"

record ('e, 's, 'w) SemaphoreDao =
  dao_acquire :: "string \<Rightarrow> jint \<Rightarrow> 'w \<Rightarrow> ('e + 's) \<times> 'w"
  dao_acquire_name :: "string \<Rightarrow> 'w \<Rightarrow> ('e + 's) \<times> 'w"
  dao_release :: "string \<Rightarrow> 'w \<Rightarrow> ('e + unit) \<times> 'w"

record ('e, 's, 'w) SemaphoreUpdater =
  scheduleForUpdate :: "'s \<Rightarrow> jint \<Rightarrow> 'w \<Rightarrow> ('e + unit) \<times> 'w"
  stopUpdate :: "string \<Rightarrow> 'w \<Rightarrow> ('e + unit) \<times> 'w"

record ('e, 's, 'w) SemaphoresImpl =
  dao :: "('e, 's, 'w) SemaphoreDao"
  updater :: "('e, 's, 'w) SemaphoreUpdater"

text \<open>
  \<^verbatim>\<open>acquire(String name, int maxAgeInSeconds, int updatePeriodInSeconds)\<close>: the DAO is
  asked first; an exception of the DAO leaves the method at once. Otherwise the updater
  is called with the semaphore the DAO returned, whatever that semaphore says, and the
  semaphore is returned.
\<close>

definition acquire ::
  "('e, 's, 'w) SemaphoresImpl \<Rightarrow> string \<Rightarrow> jint \<Rightarrow> jint \<Rightarrow> 'w \<Rightarrow> ('e + 's) \<times> 'w" where
  "acquire this name maxAgeInSeconds updatePeriodInSeconds w =
     (case dao_acquire (dao this) name maxAgeInSeconds w of
        (Inl e, w1) \<Rightarrow> (Inl e, w1)
      | (Inr semaphore, w1) \<Rightarrow>
          (case scheduleForUpdate (updater this) semaphore updatePeriodInSeconds w1 of
             (Inl e, w2) \<Rightarrow> (Inl e, w2)
           | (Inr _, w2) \<Rightarrow> (Inr semaphore, w2)))"

text \<open>\<^verbatim>\<open>acquire(String name)\<close>, the overload with one argument.\<close>

definition acquire_name ::
  "('e, 's, 'w) SemaphoresImpl \<Rightarrow> string \<Rightarrow> 'w \<Rightarrow> ('e + 's) \<times> 'w" where
  "acquire_name this name w = dao_acquire_name (dao this) name w"

text \<open>\<^verbatim>\<open>release(String name)\<close>: the updater first, the DAO second.\<close>

definition release ::
  "('e, 's, 'w) SemaphoresImpl \<Rightarrow> string \<Rightarrow> 'w \<Rightarrow> ('e + unit) \<times> 'w" where
  "release this name w =
     (case stopUpdate (updater this) name w of
        (Inl e, w1) \<Rightarrow> (Inl e, w1)
      | (Inr _, w1) \<Rightarrow> dao_release (dao this) name w1)"

subsection \<open>Observing the calls the facade makes\<close>

text \<open>
  What the facade does is the sequence of calls it makes on its collaborators. To
  observe it, every collaborator method is wrapped so that it appends its own invocation
  to a log carried next to the world; the wrapped collaborators behave as the original
  ones do.
\<close>

datatype 's invocation =
    DaoAcquire string jint
  | DaoAcquireName string
  | DaoRelease string
  | ScheduleForUpdate 's jint
  | StopUpdate string

definition recording ::
  "'s invocation \<Rightarrow> ('w \<Rightarrow> ('e + 'a) \<times> 'w) \<Rightarrow>
     'w \<times> 's invocation list \<Rightarrow> ('e + 'a) \<times> ('w \<times> 's invocation list)" where
  "recording c f = (\<lambda>(w, log). case f w of (r, w') \<Rightarrow> (r, (w', log @ [c])))"

definition traced ::
  "('e, 's, 'w) SemaphoresImpl \<Rightarrow> ('e, 's, 'w \<times> 's invocation list) SemaphoresImpl" where
  "traced this =
     \<lparr>dao =
        \<lparr>dao_acquire = (\<lambda>n m. recording (DaoAcquire n m) (dao_acquire (dao this) n m)),
         dao_acquire_name = (\<lambda>n. recording (DaoAcquireName n) (dao_acquire_name (dao this) n)),
         dao_release = (\<lambda>n. recording (DaoRelease n) (dao_release (dao this) n))\<rparr>,
      updater =
        \<lparr>scheduleForUpdate =
           (\<lambda>s p. recording (ScheduleForUpdate s p) (scheduleForUpdate (updater this) s p)),
         stopUpdate = (\<lambda>n. recording (StopUpdate n) (stopUpdate (updater this) n))\<rparr>\<rparr>"

subsection \<open>Collaborators with a state of their own\<close>

text \<open>
  The constructor \<^verbatim>\<open>SemaphoresImpl(SemaphoreDao dao, SemaphoreUpdater updater)\<close> takes two
  objects. When each of them keeps its state to itself (the DAO the storage, the updater
  the tasks it runs in this process), the world is the pair of the two states.
\<close>

definition on_dao :: "('d \<Rightarrow> ('e + 'a) \<times> 'd) \<Rightarrow> 'd \<times> 'u \<Rightarrow> ('e + 'a) \<times> ('d \<times> 'u)" where
  "on_dao f = (\<lambda>(d, u). case f d of (r, d') \<Rightarrow> (r, (d', u)))"

definition on_updater :: "('u \<Rightarrow> ('e + 'a) \<times> 'u) \<Rightarrow> 'd \<times> 'u \<Rightarrow> ('e + 'a) \<times> ('d \<times> 'u)" where
  "on_updater f = (\<lambda>(d, u). case f u of (r, u') \<Rightarrow> (r, (d, u')))"

definition new_SemaphoresImpl ::
  "('e, 's, 'd) SemaphoreDao \<Rightarrow> ('e, 's, 'u) SemaphoreUpdater \<Rightarrow>
     ('e, 's, 'd \<times> 'u) SemaphoresImpl" where
  "new_SemaphoresImpl d u =
     \<lparr>dao =
        \<lparr>dao_acquire = (\<lambda>n m. on_dao (dao_acquire d n m)),
         dao_acquire_name = (\<lambda>n. on_dao (dao_acquire_name d n)),
         dao_release = (\<lambda>n. on_dao (dao_release d n))\<rparr>,
      updater =
        \<lparr>scheduleForUpdate = (\<lambda>s p. on_updater (scheduleForUpdate u s p)),
         stopUpdate = (\<lambda>n. on_updater (stopUpdate u n))\<rparr>\<rparr>"

section \<open>The collaborators, as the specification describes them\<close>

text \<open>
  \<^verbatim>\<open>SemaphoreDao\<close> and \<^verbatim>\<open>SemaphoreUpdater\<close> are classes of this code base whose
  sources are not at hand. The specification describes them as the lease store and the
  lease renewer; the definitions of this section follow its words. Time is a number of
  seconds, the store reads the clock \<open>now\<close>, and a Java \<^verbatim>\<open>int\<close> is read as a signed
  number.
\<close>

text \<open>Modelled from the spec: the kinds of error it names (the exception classes of
  the collaborators are missing).\<close>

datatype error = StorageUnavailable | LeaseLost | InvalidName

text \<open>Modelled from the spec: the lease record, keyed by its name in the store (the
  table behind \<^verbatim>\<open>SemaphoreDao\<close> is missing).\<close>

record Lease =
  createdAt :: int
  updatedAt :: int

text \<open>Modelled from the spec: the state of the lease store (the database behind
  \<^verbatim>\<open>SemaphoreDao\<close> is missing), the records by name and the time the store reads when
  it runs an operation.\<close>

record LeaseStore =
  now :: int
  leases :: "string \<rightharpoonup> Lease"

text \<open>Modelled from the spec: what the store's acquisition returns, the outcome and the
  lease (the class \<^verbatim>\<open>Semaphores.Semaphore\<close> is missing).\<close>

record Semaphore =
  sem_name :: string
  acquired :: bool
  sem_lease :: Lease

text \<open>Modelled from the spec: \<^verbatim>\<open>tryAcquire(name, maxAge)\<close> of the lease store, missing as
  \<^verbatim>\<open>SemaphoreDao.acquire(String, int)\<close>. No record: one is created with
  \<^verbatim>\<open>updatedAt = now\<close>, acquired. A record with \<^verbatim>\<open>now - updatedAt > maxAge\<close>: its
  \<^verbatim>\<open>updatedAt\<close> is overwritten with \<^verbatim>\<open>now\<close>, acquired. Otherwise the record is returned
  unchanged, not acquired.\<close>

definition tryAcquire :: "string \<Rightarrow> jint \<Rightarrow> LeaseStore \<Rightarrow> (error + Semaphore) \<times> LeaseStore" where
  "tryAcquire name maxAge s =
     (case leases s name of
        None \<Rightarrow>
          (let l = \<lparr>createdAt = now s, updatedAt = now s\<rparr>
           in (Inr \<lparr>sem_name = name, acquired = True, sem_lease = l\<rparr>,
               s\<lparr>leases := (leases s)(name \<mapsto> l)\<rparr>))
      | Some l \<Rightarrow>
          if now s - updatedAt l > sint maxAge
          then (let l' = l\<lparr>updatedAt := now s\<rparr>
                in (Inr \<lparr>sem_name = name, acquired = True, sem_lease = l'\<rparr>,
                    s\<lparr>leases := (leases s)(name \<mapsto> l')\<rparr>))
          else (Inr \<lparr>sem_name = name, acquired = False, sem_lease = l\<rparr>, s))"

text \<open>Modelled from the spec: the store's side of the variant \<^verbatim>\<open>acquire(name)\<close>, missing
  as \<^verbatim>\<open>SemaphoreDao.acquire(String)\<close>: it creates the lease, or finds it held; there is
  no age after which it takes over an existing record.\<close>

definition tryAcquireNoExpiry :: "string \<Rightarrow> LeaseStore \<Rightarrow> (error + Semaphore) \<times> LeaseStore" where
  "tryAcquireNoExpiry name s =
     (case leases s name of
        None \<Rightarrow>
          (let l = \<lparr>createdAt = now s, updatedAt = now s\<rparr>
           in (Inr \<lparr>sem_name = name, acquired = True, sem_lease = l\<rparr>,
               s\<lparr>leases := (leases s)(name \<mapsto> l)\<rparr>))
      | Some l \<Rightarrow> (Inr \<lparr>sem_name = name, acquired = False, sem_lease = l\<rparr>, s))"

text \<open>Modelled from the spec: \<^verbatim>\<open>touch(name)\<close> of the lease store (missing): it refreshes
  \<^verbatim>\<open>updatedAt\<close> of a record that still exists and answers whether it did.\<close>

definition touch :: "string \<Rightarrow> LeaseStore \<Rightarrow> (error + bool) \<times> LeaseStore" where
  "touch name s =
     (case leases s name of
        None \<Rightarrow> (Inr False, s)
      | Some l \<Rightarrow> (Inr True, s\<lparr>leases := (leases s)(name \<mapsto> l\<lparr>updatedAt := now s\<rparr>)\<rparr>))"

text \<open>Modelled from the spec: \<^verbatim>\<open>clear(name)\<close> of the lease store, missing as
  \<^verbatim>\<open>SemaphoreDao.release(String)\<close>: the record is removed; clearing an absent name is
  not an error.\<close>

definition clear :: "string \<Rightarrow> LeaseStore \<Rightarrow> (error + unit) \<times> LeaseStore" where
  "clear name s = (Inr (), s\<lparr>leases := (leases s)(name := None)\<rparr>)"

text \<open>Modelled from the spec: \<^verbatim>\<open>read(name)\<close> of the lease store (missing), an inspection
  that changes nothing.\<close>

definition read :: "string \<Rightarrow> LeaseStore \<Rightarrow> (error + Lease option) \<times> LeaseStore" where
  "read name s = (Inr (leases s name), s)"

text \<open>Modelled from the spec: the lease store as the DAO of the facade.\<close>

definition leaseStore :: "(error, Semaphore, LeaseStore) SemaphoreDao" where
  "leaseStore =
     \<lparr>dao_acquire = tryAcquire, dao_acquire_name = tryAcquireNoExpiry, dao_release = clear\<rparr>"

text \<open>Modelled from the spec: the renewer's registry of this process, from the name of a
  lease to the interval of its renewal task (\<^verbatim>\<open>SemaphoreUpdater\<close> is missing).
  \<^verbatim>\<open>scheduleForUpdate\<close> begins a repeating task for the name; \<^verbatim>\<open>stopUpdate\<close> ends it and
  is a no-op on a name that has none.\<close>

type_synonym LeaseRenewer = "string \<rightharpoonup> jint"

definition renewer_scheduleForUpdate ::
  "Semaphore \<Rightarrow> jint \<Rightarrow> LeaseRenewer \<Rightarrow> (error + unit) \<times> LeaseRenewer" where
  "renewer_scheduleForUpdate semaphore renewalInterval tasks =
     (Inr (), tasks(sem_name semaphore \<mapsto> renewalInterval))"

definition renewer_stopUpdate :: "string \<Rightarrow> LeaseRenewer \<Rightarrow> (error + unit) \<times> LeaseRenewer" where
  "renewer_stopUpdate name tasks = (Inr (), tasks(name := None))"

text \<open>Modelled from the spec: the lease renewer as the updater of the facade.\<close>

definition leaseRenewer :: "(error, Semaphore, LeaseRenewer) SemaphoreUpdater" where
  "leaseRenewer =
     \<lparr>scheduleForUpdate = renewer_scheduleForUpdate, stopUpdate = renewer_stopUpdate\<rparr>"

text \<open>The facade of the sources over the two collaborators of the specification.\<close>

definition semaphoreService :: "(error, Semaphore, LeaseStore \<times> LeaseRenewer) SemaphoresImpl" where
  "semaphoreService = new_SemaphoresImpl leaseStore leaseRenewer"

text \<open>Modelled from the spec: a DAO that cannot reach its storage; every call fails with
  \<^verbatim>\<open>StorageUnavailable\<close> and changes nothing.\<close>

definition unreachableStore :: "(error, Semaphore, LeaseStore) SemaphoreDao" where
  "unreachableStore =
     \<lparr>dao_acquire = (\<lambda>name maxAge s. (Inl StorageUnavailable, s)),
      dao_acquire_name = (\<lambda>name s. (Inl StorageUnavailable, s)),
      dao_release = (\<lambda>name s. (Inl StorageUnavailable, s))\<rparr>"

text \<open>Modelled from the spec: what any process may do to the shared store between two
  calls of one process, namely the operations of the store (missing, as above), and the
  passing of time.\<close>

datatype store_event =
    TryAcquire string jint
  | TryAcquireNoExpiry string
  | Touch string
  | Clear string
  | Read string
  | Elapse nat

text \<open>Modelled from the spec: the effect of one such event, and of a sequence of them,
  on the store.\<close>

fun store_step :: "store_event \<Rightarrow> LeaseStore \<Rightarrow> LeaseStore" where
  "store_step (TryAcquire name maxAge) s = snd (tryAcquire name maxAge s)"
| "store_step (TryAcquireNoExpiry name) s = snd (tryAcquireNoExpiry name s)"
| "store_step (Touch name) s = snd (touch name s)"
| "store_step (Clear name) s = snd (clear name s)"
| "store_step (Read name) s = snd (read name s)"
| "store_step (Elapse seconds) s = s\<lparr>now := now s + int seconds\<rparr>"

fun store_run :: "store_event list \<Rightarrow> LeaseStore \<Rightarrow> LeaseStore" where
  "store_run [] s = s"
| "store_run (ev # evs) s = store_run evs (store_step ev s)"

section \<open>BitbucketProjectCreate: the project creation page for Bitbucket Server\<close>

text \<open>
  The types of the payloads come from modules that are not at hand; the records below
  have the fields this component reads: \<^verbatim>\<open>key\<close> of an \<^verbatim>\<open>AlmSettingsInstance\<close>,
  \<^verbatim>\<open>key\<close> and \<^verbatim>\<open>name\<close> of a \<^verbatim>\<open>BitbucketProject\<close>, \<^verbatim>\<open>projectKey\<close> and \<^verbatim>\<open>slug\<close> of a
  \<^verbatim>\<open>BitbucketRepository\<close>. Fields that share a name in the source carry the name of
  their object here (\<open>setting_key\<close>, \<open>project_key\<close>, \<open>project_name\<close>, and
  \<open>shown_repositories\<close>, \<open>page_repositories\<close> next to \<open>repositories\<close>). An optional
  field of the state is an \<open>option\<close>, with \<open>None\<close> for \<^verbatim>\<open>undefined\<close>.
\<close>

record AlmSettingsInstance =
  setting_key :: string

record BitbucketProject =
  project_key :: string
  project_name :: string

record BitbucketRepository =
  projectKey :: string
  slug :: string

text \<open>An entry of \<^verbatim>\<open>BitbucketProjectRepositories\<close>, the object
  \<^verbatim>\<open>{ allShown, repositories }\<close> kept under a project key.\<close>

record ProjectRepositories =
  allShown :: bool
  shown_repositories :: "BitbucketRepository list"

type_synonym BitbucketProjectRepositories = "string \<rightharpoonup> ProjectRepositories"

record State =
  bitbucketSetting :: "AlmSettingsInstance option"
  importing :: bool
  loading :: bool
  patIsValid :: "bool option"
  projects :: "BitbucketProject list option"
  projectRepositories :: "BitbucketProjectRepositories option"
  searching :: bool
  searchResults :: "BitbucketRepository list option"
  selectedRepository :: "BitbucketRepository option"
  submittingToken :: "bool option"
  tokenValidationFailed :: bool

text \<open>The state the constructor sets: the first of \<^verbatim>\<open>props.bitbucketSettings\<close>, which is
  \<^verbatim>\<open>undefined\<close> for an empty list; the fields it does not mention are \<^verbatim>\<open>undefined\<close>.\<close>

definition initialState :: "AlmSettingsInstance list \<Rightarrow> State" where
  "initialState bitbucketSettings =
     \<lparr>bitbucketSetting = (case bitbucketSettings of [] \<Rightarrow> None | first # _ \<Rightarrow> Some first),
      importing = False,
      loading = False,
      patIsValid = None,
      projects = None,
      projectRepositories = None,
      searching = False,
      searchResults = None,
      selectedRepository = None,
      submittingToken = None,
      tokenValidationFailed = False\<rparr>"

text \<open>The component: the flag \<^verbatim>\<open>mounted\<close> and the React state.\<close>

record Component =
  mounted :: bool
  state :: State

text \<open>The payload \<^verbatim>\<open>{ isLastPage, repositories }\<close> that
  \<^verbatim>\<open>getBitbucketServerRepositories\<close> resolves with.\<close>

record RepositoriesPage =
  isLastPage :: bool
  repositories :: "BitbucketRepository list"

text \<open>The object \<^verbatim>\<open>{ repositories, isLastPage, projectKey }\<close> computed for one project.\<close>

record ProjectPage =
  page_repositories :: "BitbucketRepository list"
  page_isLastPage :: bool
  page_projectKey :: string

text \<open>
  The callback that handles the answer for one project \<open>p\<close>: the repositories are
  filtered on the project key, and the page counts as the last one when the backend
  says so or when fewer repositories than a page holds are left. The constant
  \<^verbatim>\<open>DEFAULT_BBS_PAGE_SIZE\<close> is imported from a module that is not at hand and is a
  parameter here.
\<close>

definition projectPage :: "int \<Rightarrow> BitbucketProject \<Rightarrow> RepositoriesPage \<Rightarrow> ProjectPage" where
  "projectPage DEFAULT_BBS_PAGE_SIZE p answer =
     (let filteredRepositories = filter (\<lambda>r. projectKey r = project_key p) (repositories answer);
          realIsLastPage =
            (isLastPage answer \<or> int (length filteredRepositories) < DEFAULT_BBS_PAGE_SIZE)
      in \<lparr>page_repositories = filteredRepositories,
          page_isLastPage = realIsLastPage,
          page_projectKey = project_key p\<rparr>)"

text \<open>
  \<^verbatim>\<open>Promise.all\<close>. Every promise is given with the instant at which it settles and
  with its outcome. When all of them resolve, the result is the list of their values in
  the order of the promises. When one rejects, the result is the rejection of the
  promise that rejects first in time, wherever it stands in the list. (The event loop
  settles promises one after the other; should two rejections carry the same instant,
  the one that stands first in the list is taken.)
\<close>

fun first_rejection :: "(nat \<times> ('e + 'a)) list \<Rightarrow> (nat \<times> 'e) option" where
  "first_rejection [] = None"
| "first_rejection ((t, Inr x) # ps) = first_rejection ps"
| "first_rejection ((t, Inl e) # ps) =
     (case first_rejection ps of
        None \<Rightarrow> Some (t, e)
      | Some (t', e') \<Rightarrow> if t' < t then Some (t', e') else Some (t, e))"

fun resolved_values :: "(nat \<times> ('e + 'a)) list \<Rightarrow> 'a list" where
  "resolved_values [] = []"
| "resolved_values ((t, Inr x) # ps) = x # resolved_values ps"
| "resolved_values ((t, Inl e) # ps) = resolved_values ps"

definition promise_all :: "(nat \<times> ('e + 'a)) list \<Rightarrow> 'e + 'a list" where
  "promise_all ps =
     (case first_rejection ps of
        Some (t, e) \<Rightarrow> Inl e
      | None \<Rightarrow> Inr (resolved_values ps))"

text \<open>The reduction of the per-project objects into one object keyed by project key;
  a later object replaces an earlier one under the same key.\<close>

definition collectPages :: "ProjectPage list \<Rightarrow> BitbucketProjectRepositories" where
  "collectPages results =
     foldl (\<lambda>acc r. acc(page_projectKey r \<mapsto>
               \<lparr>allShown = page_isLastPage r, shown_repositories = page_repositories r\<rparr>))
       Map.empty results"

text \<open>
  \<^verbatim>\<open>fetchBitbucketRepositories(projects)\<close>. The web service
  \<^verbatim>\<open>getBitbucketServerRepositories\<close> is a parameter: from the key of the setting and
  the name of a project to the instant at which the request settles and its outcome, a
  rejection or a payload. The result is a rejection, or what the promise resolves with:
  \<^verbatim>\<open>undefined\<close> when there is no setting, the object otherwise.
\<close>

definition fetchBitbucketRepositories ::
  "int \<Rightarrow> (string \<Rightarrow> string \<Rightarrow> nat \<times> ('e + RepositoriesPage)) \<Rightarrow> State \<Rightarrow>
     BitbucketProject list \<Rightarrow> 'e + BitbucketProjectRepositories option" where
  "fetchBitbucketRepositories DEFAULT_BBS_PAGE_SIZE getBitbucketServerRepositories st projs =
     (case bitbucketSetting st of
        None \<Rightarrow> Inr None
      | Some setting \<Rightarrow>
          (case promise_all
                  (map (\<lambda>p. case getBitbucketServerRepositories (setting_key setting)
                                    (project_name p) of
                              (t, Inl e) \<Rightarrow> (t, Inl e)
                            | (t, Inr answer) \<Rightarrow>
                                (t, Inr (projectPage DEFAULT_BBS_PAGE_SIZE p answer)))
                     projs) of
             Inl e \<Rightarrow> Inl e
           | Inr results \<Rightarrow> Inr (Some (collectPages results))))"

text \<open>
  \<^verbatim>\<open>handleSearch(query)\<close>, up to the point where it returns: the new state and the
  requests sent. The empty string is the only string that \<^verbatim>\<open>!query\<close> holds for.
\<close>

datatype request = SearchForBitbucketServerRepositories string string

definition handleSearch :: "string \<Rightarrow> State \<Rightarrow> State \<times> request list" where
  "handleSearch query st =
     (case bitbucketSetting st of
        None \<Rightarrow> (st, [])
      | Some setting \<Rightarrow>
          if query = []
          then (st\<lparr>searching := False, searchResults := None, selectedRepository := None\<rparr>, [])
          else (st\<lparr>searching := True, selectedRepository := None\<rparr>,
                [SearchForBitbucketServerRepositories (setting_key setting) query]))"

text \<open>The two callbacks of the search request, run when the answer arrives.\<close>

definition handleSearch_then :: "BitbucketRepository list \<Rightarrow> Component \<Rightarrow> Component" where
  "handleSearch_then repos c =
     (if mounted c
      then c\<lparr>state := (state c)\<lparr>searching := False, searchResults := Some repos\<rparr>\<rparr>
      else c)"

definition handleSearch_catch :: "Component \<Rightarrow> Component" where
  "handleSearch_catch c =
     (if mounted c then c\<lparr>state := (state c)\<lparr>searching := False\<rparr>\<rparr> else c)"

text \<open>\<^verbatim>\<open>handleSelectRepository(selectedRepository)\<close>.\<close>

definition handleSelectRepository :: "BitbucketRepository \<Rightarrow> State \<Rightarrow> State" where
  "handleSelectRepository repo st = st\<lparr>selectedRepository := Some repo\<rparr>"

section \<open>The facade: what it calls, and in which order\<close>

subsection \<open>The facade in terms of its collaborators\<close>

lemma acquire_traced:
  "acquire (traced this) name maxAge period (w, log) =
     (case dao_acquire (dao this) name maxAge w of
        (Inl e, w1) \<Rightarrow> (Inl e, (w1, log @ [DaoAcquire name maxAge]))
      | (Inr semaphore, w1) \<Rightarrow>
          (case scheduleForUpdate (updater this) semaphore period w1 of
             (Inl e, w2) \<Rightarrow>
               (Inl e, (w2, log @ [DaoAcquire name maxAge, ScheduleForUpdate semaphore period]))
           | (Inr u, w2) \<Rightarrow>
               (Inr semaphore,
                (w2, log @ [DaoAcquire name maxAge, ScheduleForUpdate semaphore period]))))"
  by (simp add: acquire_def traced_def recording_def split: prod.splits sum.splits)

lemma release_traced:
  "release (traced this) name (w, log) =
     (case stopUpdate (updater this) name w of
        (Inl e, w1) \<Rightarrow> (Inl e, (w1, log @ [StopUpdate name]))
      | (Inr u, w1) \<Rightarrow>
          (case dao_release (dao this) name w1 of
             (r, w2) \<Rightarrow> (r, (w2, log @ [StopUpdate name, DaoRelease name]))))"
  by (simp add: release_def traced_def recording_def split: prod.splits sum.splits)

lemma acquire_name_traced:
  "acquire_name (traced this) name (w, log) =
     (case dao_acquire_name (dao this) name w of
        (r, w1) \<Rightarrow> (r, (w1, log @ [DaoAcquireName name])))"
  by (simp add: acquire_name_def traced_def recording_def split: prod.splits sum.splits)

text \<open>The log is an observation only: the traced facade returns what the facade returns
  and leaves the world the facade leaves.\<close>

lemma traced_acquire_same:
  "fst (acquire (traced this) name maxAge period (w, log)) =
     fst (acquire this name maxAge period w)
   \<and> fst (snd (acquire (traced this) name maxAge period (w, log))) =
     snd (acquire this name maxAge period w)"
  unfolding acquire_traced by (simp add: acquire_def split: prod.splits sum.splits)

lemma traced_release_same:
  "fst (release (traced this) name (w, log)) = fst (release this name w)
   \<and> fst (snd (release (traced this) name (w, log))) = snd (release this name w)"
  unfolding release_traced by (simp add: release_def split: prod.splits sum.splits)

lemma traced_acquire_name_same:
  "fst (acquire_name (traced this) name (w, log)) = fst (acquire_name this name w)
   \<and> fst (snd (acquire_name (traced this) name (w, log))) = snd (acquire_name this name w)"
  unfolding acquire_name_traced by (simp add: acquire_name_def split: prod.splits)

lemma acquire_new:
  "acquire (new_SemaphoresImpl d u) name maxAge period (ds, us) =
     (case dao_acquire d name maxAge ds of
        (Inl e, ds1) \<Rightarrow> (Inl e, (ds1, us))
      | (Inr semaphore, ds1) \<Rightarrow>
          (case scheduleForUpdate u semaphore period us of
             (Inl e, us1) \<Rightarrow> (Inl e, (ds1, us1))
           | (Inr x, us1) \<Rightarrow> (Inr semaphore, (ds1, us1))))"
  by (simp add: acquire_def new_SemaphoresImpl_def on_dao_def on_updater_def
        split: prod.splits sum.splits)

lemma release_new:
  "release (new_SemaphoresImpl d u) name (ds, us) =
     (case stopUpdate u name us of
        (Inl e, us1) \<Rightarrow> (Inl e, (ds, us1))
      | (Inr x, us1) \<Rightarrow>
          (case dao_release d name ds of (r, ds1) \<Rightarrow> (r, (ds1, us1))))"
  by (simp add: release_def new_SemaphoresImpl_def on_dao_def on_updater_def
        split: prod.splits sum.splits)


lemma semaphoreService_acquire:
  "acquire semaphoreService name maxAge period (s, tasks) =
     (case tryAcquire name maxAge s of
        (Inl e, s1) \<Rightarrow> (Inl e, (s1, tasks))
      | (Inr semaphore, s1) \<Rightarrow> (Inr semaphore, (s1, tasks(sem_name semaphore \<mapsto> period))))"
  by (simp add: semaphoreService_def acquire_new leaseStore_def leaseRenewer_def
        renewer_scheduleForUpdate_def split: prod.splits sum.splits)

lemma semaphoreService_release:
  "release semaphoreService name (s, tasks) =
     (Inr (), (s\<lparr>leases := (leases s)(name := None)\<rparr>, tasks(name := None)))"
  by (simp add: semaphoreService_def release_new leaseStore_def leaseRenewer_def
        renewer_stopUpdate_def clear_def)


lemmas collaborator_simps =
  semaphoreService_def new_SemaphoresImpl_def on_dao_def on_updater_def leaseStore_def
  leaseRenewer_def unreachableStore_def tryAcquire_def tryAcquireNoExpiry_def clear_def
  renewer_scheduleForUpdate_def renewer_stopUpdate_def Let_def

subsection \<open>The scenarios of the specification on the modelled collaborators\<close>

text \<open>Scenario A of the specification: the first process acquires \<^verbatim>\<open>job-x\<close>, the store
  refuses the second, the first releases, the store grants the second.\<close>

lemma scenario_A:
  "acquire semaphoreService ''job-x'' 60 20 (\<lparr>now = 100, leases = Map.empty\<rparr>, Map.empty)
     = (Inr \<lparr>sem_name = ''job-x'', acquired = True,
             sem_lease = \<lparr>createdAt = 100, updatedAt = 100\<rparr>\<rparr>,
        (\<lparr>now = 100, leases = [''job-x'' \<mapsto> \<lparr>createdAt = 100, updatedAt = 100\<rparr>]\<rparr>,
         [''job-x'' \<mapsto> 20]))"
  "fst (tryAcquire ''job-x'' 60
     \<lparr>now = 100, leases = [''job-x'' \<mapsto> \<lparr>createdAt = 100, updatedAt = 100\<rparr>]\<rparr>)
     = Inr \<lparr>sem_name = ''job-x'', acquired = False,
            sem_lease = \<lparr>createdAt = 100, updatedAt = 100\<rparr>\<rparr>"
  "release semaphoreService ''job-x''
     (\<lparr>now = 100, leases = [''job-x'' \<mapsto> \<lparr>createdAt = 100, updatedAt = 100\<rparr>]\<rparr>,
      [''job-x'' \<mapsto> 20])
     = (Inr (), (\<lparr>now = 100, leases = Map.empty\<rparr>, Map.empty))"
  "fst (tryAcquire ''job-x'' 60 \<lparr>now = 100, leases = Map.empty\<rparr>)
     = Inr \<lparr>sem_name = ''job-x'', acquired = True,
            sem_lease = \<lparr>createdAt = 100, updatedAt = 100\<rparr>\<rparr>"
  by (simp_all add: semaphoreService_acquire semaphoreService_release tryAcquire_def Let_def)

text \<open>Scenario B of the specification: a renewal interval beyond the maximal age, no
  tick in six seconds, and the second process takes the lease over.\<close>

lemma scenario_B:
  "fst (tryAcquire ''job-x'' 5
     (store_run [Elapse 6]
        (fst (snd (acquire semaphoreService ''job-x'' 5 100
           (\<lparr>now = 100, leases = Map.empty\<rparr>, Map.empty))))))
     = Inr \<lparr>sem_name = ''job-x'', acquired = True,
            sem_lease = \<lparr>createdAt = 100, updatedAt = 106\<rparr>\<rparr>"
  by (simp add: semaphoreService_acquire tryAcquire_def Let_def)

subsection \<open>Acquisition and the renewal task\<close>

text \<open>
  C1 (as amended). The facade does not look at the outcome of the acquisition. For every
  call \<^verbatim>\<open>acquire(name, maxAge, period)\<close> in which the DAO returns a semaphore, the next
  and last call of the facade is \<^verbatim>\<open>scheduleForUpdate\<close> with that semaphore and the
  period, whether the semaphore is acquired or not. With the renewer of the
  specification, and any DAO, the name of the returned semaphore has a renewal task
  afterwards.
\<close>

theorem acquire_schedules_every_semaphore:
  "(dao_acquire (dao this) name maxAge w = (Inr semaphore, w1) \<longrightarrow>
      snd (snd (acquire (traced this) name maxAge period (w, log))) =
        log @ [DaoAcquire name maxAge, ScheduleForUpdate semaphore period])
   \<and> (dao_acquire d name maxAge ds = (Inr sem, ds1) \<longrightarrow>
      acquire (new_SemaphoresImpl d leaseRenewer) name maxAge period (ds, tasks) =
        (Inr sem, (ds1, tasks(sem_name sem \<mapsto> period))))"
  by (simp add: acquire_traced acquire_new leaseRenewer_def renewer_scheduleForUpdate_def
        split: prod.splits sum.splits)

text \<open>The theorem at work: an acquisition that succeeds on an empty store, and one that
  is refused thirty seconds into a lease of sixty; both end with a renewal task.\<close>

theorem acquire_schedules_every_semaphore_witness:
  "dao_acquire (dao semaphoreService) ''job-x'' 60
     ((\<lparr>now = 100, leases = Map.empty\<rparr>, Map.empty))
   = (Inr \<lparr>sem_name = ''job-x'', acquired = True,
           sem_lease = \<lparr>createdAt = 100, updatedAt = 100\<rparr>\<rparr>,
      (\<lparr>now = 100, leases = [''job-x'' \<mapsto> \<lparr>createdAt = 100, updatedAt = 100\<rparr>]\<rparr>, Map.empty))
   \<and> snd (snd (acquire (traced semaphoreService) ''job-x'' 60 20
        ((\<lparr>now = 100, leases = Map.empty\<rparr>, Map.empty), [])))
     = [DaoAcquire ''job-x'' 60,
        ScheduleForUpdate \<lparr>sem_name = ''job-x'', acquired = True,
           sem_lease = \<lparr>createdAt = 100, updatedAt = 100\<rparr>\<rparr> 20]
   \<and> dao_acquire leaseStore ''job-x'' 60
        \<lparr>now = 130, leases = [''job-x'' \<mapsto> \<lparr>createdAt = 100, updatedAt = 100\<rparr>]\<rparr>
     = (Inr \<lparr>sem_name = ''job-x'', acquired = False,
           sem_lease = \<lparr>createdAt = 100, updatedAt = 100\<rparr>\<rparr>,
        \<lparr>now = 130, leases = [''job-x'' \<mapsto> \<lparr>createdAt = 100, updatedAt = 100\<rparr>]\<rparr>)
   \<and> acquire (new_SemaphoresImpl leaseStore leaseRenewer) ''job-x'' 60 20
        (\<lparr>now = 130, leases = [''job-x'' \<mapsto> \<lparr>createdAt = 100, updatedAt = 100\<rparr>]\<rparr>, Map.empty)
     = (Inr \<lparr>sem_name = ''job-x'', acquired = False,
           sem_lease = \<lparr>createdAt = 100, updatedAt = 100\<rparr>\<rparr>,
        (\<lparr>now = 130, leases = [''job-x'' \<mapsto> \<lparr>createdAt = 100, updatedAt = 100\<rparr>]\<rparr>,
         [''job-x'' \<mapsto> 20]))"
proof -
  have h1: "dao_acquire (dao semaphoreService) ''job-x'' 60
     ((\<lparr>now = 100, leases = Map.empty\<rparr>, Map.empty))
   = (Inr \<lparr>sem_name = ''job-x'', acquired = True,
           sem_lease = \<lparr>createdAt = 100, updatedAt = 100\<rparr>\<rparr>,
      (\<lparr>now = 100, leases = [''job-x'' \<mapsto> \<lparr>createdAt = 100, updatedAt = 100\<rparr>]\<rparr>, Map.empty))"
    by (simp add: collaborator_simps)
  have h2: "dao_acquire leaseStore ''job-x'' 60
        \<lparr>now = 130, leases = [''job-x'' \<mapsto> \<lparr>createdAt = 100, updatedAt = 100\<rparr>]\<rparr>
     = (Inr \<lparr>sem_name = ''job-x'', acquired = False,
           sem_lease = \<lparr>createdAt = 100, updatedAt = 100\<rparr>\<rparr>,
        \<lparr>now = 130, leases = [''job-x'' \<mapsto> \<lparr>createdAt = 100, updatedAt = 100\<rparr>]\<rparr>)"
    by (simp add: collaborator_simps)
  from acquire_schedules_every_semaphore[THEN conjunct1, rule_format, OF h1, of 20 "[]"]
       acquire_schedules_every_semaphore[THEN conjunct2, rule_format, OF h2, of 20 Map.empty]
       h1 h2
  show ?thesis by simp
qed

text \<open>
  The claim as it was stated (a renewal task is registered only if the acquisition
  returned \<^verbatim>\<open>acquired = true\<close>) fails: a process asks for \<^verbatim>\<open>job-x\<close> while another
  holds it; the semaphore it gets is not acquired, and yet \<^verbatim>\<open>scheduleForUpdate\<close> is
  called and the renewer holds a task for \<^verbatim>\<open>job-x\<close>.
\<close>

theorem acquire_refused_yet_scheduled:
  "acquire (traced semaphoreService) ''job-x'' 60 20
     ((\<lparr>now = 100, leases = [''job-x'' \<mapsto> \<lparr>createdAt = 100, updatedAt = 100\<rparr>]\<rparr>, Map.empty), [])
   = (Inr \<lparr>sem_name = ''job-x'', acquired = False,
           sem_lease = \<lparr>createdAt = 100, updatedAt = 100\<rparr>\<rparr>,
      ((\<lparr>now = 100, leases = [''job-x'' \<mapsto> \<lparr>createdAt = 100, updatedAt = 100\<rparr>]\<rparr>,
        [''job-x'' \<mapsto> 20]),
       [DaoAcquire ''job-x'' 60,
        ScheduleForUpdate \<lparr>sem_name = ''job-x'', acquired = False,
           sem_lease = \<lparr>createdAt = 100, updatedAt = 100\<rparr>\<rparr> 20]))"
  by (simp add: acquire_traced collaborator_simps)

text \<open>
  C5. When the acquisition of the DAO throws, \<^verbatim>\<open>acquire\<close> throws the same error, the
  call of the DAO is the only call the facade has made (no \<^verbatim>\<open>scheduleForUpdate\<close>), and
  the world is as the DAO left it. When the updater keeps its own state, that state is
  untouched, whatever the updater is.
\<close>

theorem acquire_failure_schedules_nothing:
  "(dao_acquire (dao this) name maxAge w = (Inl e, w1) \<longrightarrow>
      acquire (traced this) name maxAge period (w, log) =
        (Inl e, (w1, log @ [DaoAcquire name maxAge])))
   \<and> (dao_acquire d name maxAge ds = (Inl e', ds1) \<longrightarrow>
      acquire (new_SemaphoresImpl d u) name maxAge period (ds, us) = (Inl e', (ds1, us)))"
  by (simp add: acquire_traced acquire_new)

theorem acquire_failure_schedules_nothing_witness:
  "dao_acquire (dao (new_SemaphoresImpl unreachableStore leaseRenewer)) ''job-x'' 60
     (\<lparr>now = 100, leases = Map.empty\<rparr>, [''job-y'' \<mapsto> 5])
   = (Inl StorageUnavailable, (\<lparr>now = 100, leases = Map.empty\<rparr>, [''job-y'' \<mapsto> 5]))
   \<and> acquire (traced (new_SemaphoresImpl unreachableStore leaseRenewer)) ''job-x'' 60 20
       ((\<lparr>now = 100, leases = Map.empty\<rparr>, [''job-y'' \<mapsto> 5]), [])
     = (Inl StorageUnavailable,
        ((\<lparr>now = 100, leases = Map.empty\<rparr>, [''job-y'' \<mapsto> 5]), [DaoAcquire ''job-x'' 60]))
   \<and> acquire (new_SemaphoresImpl unreachableStore leaseRenewer) ''job-x'' 60 20
       (\<lparr>now = 100, leases = Map.empty\<rparr>, [''job-y'' \<mapsto> 5])
     = (Inl StorageUnavailable, (\<lparr>now = 100, leases = Map.empty\<rparr>, [''job-y'' \<mapsto> 5]))"
proof -
  have h1: "dao_acquire (dao (new_SemaphoresImpl unreachableStore leaseRenewer)) ''job-x'' 60
     (\<lparr>now = 100, leases = Map.empty\<rparr>, [''job-y'' \<mapsto> 5])
   = (Inl StorageUnavailable, (\<lparr>now = 100, leases = Map.empty\<rparr>, [''job-y'' \<mapsto> 5]))"
    by (simp add: collaborator_simps)
  have h2: "dao_acquire unreachableStore ''job-x'' 60 \<lparr>now = 100, leases = Map.empty\<rparr>
     = (Inl StorageUnavailable, \<lparr>now = 100, leases = Map.empty\<rparr>)"
    by (simp add: collaborator_simps)
  from acquire_failure_schedules_nothing[THEN conjunct1, rule_format, OF h1, of 20 "[]"]
       acquire_failure_schedules_nothing[THEN conjunct2, rule_format, OF h2,
         of leaseRenewer 20 "[''job-y'' \<mapsto> 5]"]
       h1
  show ?thesis by simp
qed

subsection \<open>Release\<close>

text \<open>
  C3. \<^verbatim>\<open>release(name)\<close> calls \<^verbatim>\<open>stopUpdate(name)\<close> first; only when that call has
  returned does it call \<^verbatim>\<open>release(name)\<close> of the DAO, on the world \<^verbatim>\<open>stopUpdate\<close> left,
  and what the DAO answers is the answer of the facade. The facade takes nothing but the
  name: with the store and the renewer of the specification, \<^verbatim>\<open>release\<close> returns normally
  from every state of the store and of the tasks, whether or not the name is held or has
  a task, and leaves neither a record nor a task for the name.
\<close>

theorem release_stops_then_clears:
  "release (traced this) name (w, log) =
     (case stopUpdate (updater this) name w of
        (Inl e, w1) \<Rightarrow> (Inl e, (w1, log @ [StopUpdate name]))
      | (Inr u, w1) \<Rightarrow>
          (fst (dao_release (dao this) name w1),
           (snd (dao_release (dao this) name w1), log @ [StopUpdate name, DaoRelease name])))
   \<and> release semaphoreService name (s, tasks) =
       (Inr (), (s\<lparr>leases := (leases s)(name := None)\<rparr>, tasks(name := None)))"
  by (simp add: release_traced semaphoreService_release split: prod.splits sum.splits)

theorem release_stops_then_clears_witness:
  "release (traced semaphoreService) ''job-x''
     ((\<lparr>now = 130, leases = [''job-x'' \<mapsto> \<lparr>createdAt = 100, updatedAt = 120\<rparr>]\<rparr>, Map.empty), [])
   = (Inr (), ((\<lparr>now = 130, leases = Map.empty\<rparr>, Map.empty),
               [StopUpdate ''job-x'', DaoRelease ''job-x'']))
   \<and> release semaphoreService ''job-x''
       (\<lparr>now = 130, leases = [''job-x'' \<mapsto> \<lparr>createdAt = 100, updatedAt = 120\<rparr>]\<rparr>, Map.empty)
     = (Inr (), (\<lparr>now = 130, leases = Map.empty\<rparr>, Map.empty))"
  using release_stops_then_clears[of semaphoreService "''job-x''"
          "(\<lparr>now = 130, leases = [''job-x'' \<mapsto> \<lparr>createdAt = 100, updatedAt = 120\<rparr>]\<rparr>, Map.empty)"
          "[]" "\<lparr>now = 130, leases = [''job-x'' \<mapsto> \<lparr>createdAt = 100, updatedAt = 120\<rparr>]\<rparr>"
          Map.empty]
  by (simp add: collaborator_simps)

text \<open>
  C4. When \<^verbatim>\<open>stopUpdate(name)\<close> has returned and the storage step then throws, the error
  of the DAO is what \<^verbatim>\<open>release\<close> throws, and \<^verbatim>\<open>stopUpdate(name)\<close> is in the log before
  the call of the DAO. With the renewer of the specification and any DAO at all, failing
  or not, there is no task for the name once \<^verbatim>\<open>release\<close> is over, and the outcome of the
  storage step is passed on as it is.
\<close>

theorem release_cancels_before_failing_clear:
  "(stopUpdate (updater this) name w = (Inr u, w1) \<longrightarrow>
    dao_release (dao this) name w1 = (Inl e, w2) \<longrightarrow>
      release (traced this) name (w, log) =
        (Inl e, (w2, log @ [StopUpdate name, DaoRelease name])))
   \<and> release (new_SemaphoresImpl d leaseRenewer) name (ds, tasks) =
       (fst (dao_release d name ds), (snd (dao_release d name ds), tasks(name := None)))"
  by (simp add: release_traced release_new leaseRenewer_def renewer_stopUpdate_def
        split: prod.splits sum.splits)

theorem release_cancels_before_failing_clear_witness:
  "stopUpdate (updater (new_SemaphoresImpl unreachableStore leaseRenewer)) ''job-x''
     (\<lparr>now = 130, leases = Map.empty\<rparr>, [''job-x'' \<mapsto> 20])
   = (Inr (), (\<lparr>now = 130, leases = Map.empty\<rparr>, Map.empty))
   \<and> dao_release (dao (new_SemaphoresImpl unreachableStore leaseRenewer)) ''job-x''
       (\<lparr>now = 130, leases = Map.empty\<rparr>, Map.empty)
     = (Inl StorageUnavailable, (\<lparr>now = 130, leases = Map.empty\<rparr>, Map.empty))
   \<and> release (traced (new_SemaphoresImpl unreachableStore leaseRenewer)) ''job-x''
       ((\<lparr>now = 130, leases = Map.empty\<rparr>, [''job-x'' \<mapsto> 20]), [])
     = (Inl StorageUnavailable,
        ((\<lparr>now = 130, leases = Map.empty\<rparr>, Map.empty),
         [StopUpdate ''job-x'', DaoRelease ''job-x'']))
   \<and> release (new_SemaphoresImpl unreachableStore leaseRenewer) ''job-x''
       (\<lparr>now = 130, leases = Map.empty\<rparr>, [''job-x'' \<mapsto> 20])
     = (Inl StorageUnavailable, (\<lparr>now = 130, leases = Map.empty\<rparr>, Map.empty))"
proof -
  have h1: "stopUpdate (updater (new_SemaphoresImpl unreachableStore leaseRenewer)) ''job-x''
     (\<lparr>now = 130, leases = Map.empty\<rparr>, [''job-x'' \<mapsto> 20])
   = (Inr (), (\<lparr>now = 130, leases = Map.empty\<rparr>, Map.empty))"
    by (simp add: collaborator_simps)
  have h2: "dao_release (dao (new_SemaphoresImpl unreachableStore leaseRenewer)) ''job-x''
       (\<lparr>now = 130, leases = Map.empty\<rparr>, Map.empty)
     = (Inl StorageUnavailable, (\<lparr>now = 130, leases = Map.empty\<rparr>, Map.empty))"
    by (simp add: collaborator_simps)
  from release_cancels_before_failing_clear[THEN conjunct1, rule_format, OF h1 h2, of "[]"]
       release_cancels_before_failing_clear[THEN conjunct2, of unreachableStore "''job-x''"
         "\<lparr>now = 130, leases = Map.empty\<rparr>" "[''job-x'' \<mapsto> 20]"]
       h1 h2
  show ?thesis by (simp add: unreachableStore_def)
qed

subsection \<open>The acquisition without a maximal age\<close>









subsection \<open>Names\<close>




subsection \<open>Release, then acquire\<close>

text \<open>
  C8. With the store and the renewer of the specification: from every state, for every
  name, maximal age and interval, \<^verbatim>\<open>release(name)\<close> returns normally and the
  \<^verbatim>\<open>acquire(name, maxAge, interval)\<close> that follows it at once returns a semaphore with
  \<^verbatim>\<open>acquired = true\<close>, on a lease created at that moment.
\<close>

theorem release_then_acquire_acquires:
  "fst (release semaphoreService name w) = Inr ()
   \<and> fst (acquire semaphoreService name maxAge interval (snd (release semaphoreService name w))) =
       Inr \<lparr>sem_name = name, acquired = True,
            sem_lease = \<lparr>createdAt = now (fst w), updatedAt = now (fst w)\<rparr>\<rparr>"
  by (cases w) (simp add: semaphoreService_release semaphoreService_acquire tryAcquire_def Let_def)

theorem release_then_acquire_acquires_witness:
  "fst (release semaphoreService ''job-x''
         (\<lparr>now = 130, leases = [''job-x'' \<mapsto> \<lparr>createdAt = 100, updatedAt = 120\<rparr>]\<rparr>,
          [''job-x'' \<mapsto> 20])) = Inr ()
   \<and> snd (release semaphoreService ''job-x''
         (\<lparr>now = 130, leases = [''job-x'' \<mapsto> \<lparr>createdAt = 100, updatedAt = 120\<rparr>]\<rparr>,
          [''job-x'' \<mapsto> 20])) = (\<lparr>now = 130, leases = Map.empty\<rparr>, Map.empty)
   \<and> fst (acquire semaphoreService ''job-x'' 60 20 (\<lparr>now = 130, leases = Map.empty\<rparr>, Map.empty)) =
       Inr \<lparr>sem_name = ''job-x'', acquired = True,
            sem_lease = \<lparr>createdAt = 130, updatedAt = 130\<rparr>\<rparr>"
proof -
  have r: "snd (release semaphoreService ''job-x''
         (\<lparr>now = 130, leases = [''job-x'' \<mapsto> \<lparr>createdAt = 100, updatedAt = 120\<rparr>]\<rparr>,
          [''job-x'' \<mapsto> 20])) = (\<lparr>now = 130, leases = Map.empty\<rparr>, Map.empty)"
    by (simp add: semaphoreService_release)
  from release_then_acquire_acquires[of "''job-x''"
         "(\<lparr>now = 130, leases = [''job-x'' \<mapsto> \<lparr>createdAt = 100, updatedAt = 120\<rparr>]\<rparr>,
          [''job-x'' \<mapsto> 20])" 60 20] r
  show ?thesis by simp
qed

section \<open>BitbucketProjectCreate: repositories per project, and the search\<close>

lemma first_rejection_none:
  "first_rejection (map f xs) = None \<Longrightarrow>
     list_all2 (\<lambda>x y. snd (f x) = Inr y) xs (resolved_values (map f xs))"
proof (induction xs)
  case Nil
  then show ?case by simp
next
  case (Cons x xs)
  obtain t r where fx: "f x = (t, r)" by (cases "f x")
  show ?case
  proof (cases r)
    case (Inl e)
    with Cons.prems fx show ?thesis
      by (simp split: option.splits prod.splits if_splits)
  next
    case (Inr v)
    with Cons fx show ?thesis by simp
  qed
qed

lemma promise_all_map:
  "promise_all (map f xs) = Inr ys \<Longrightarrow> list_all2 (\<lambda>x y. snd (f x) = Inr y) xs ys"
  using first_rejection_none[of f xs]
  by (auto simp: promise_all_def split: option.splits)

text \<open>Two rejections: the one that comes first in time is the one reported, although
  it stands later in the list.\<close>

lemma promise_all_first_in_time:
  "promise_all [(5, Inl ''late''), (7, Inr (1::nat)), (2, Inl ''early'')] = Inl ''early''"
  by (simp add: promise_all_def)

lemma collect_step_other:
  "k \<notin> page_projectKey ` set rs \<Longrightarrow>
     foldl (\<lambda>acc r. acc(page_projectKey r \<mapsto> g r)) m rs k = m k"
  by (induction rs arbitrary: m) auto

lemma collect_step_last:
  "page_projectKey r \<notin> page_projectKey ` set after \<Longrightarrow>
     foldl (\<lambda>acc r. acc(page_projectKey r \<mapsto> g r)) m (before @ r # after) (page_projectKey r)
       = Some (g r)"
  by (simp add: collect_step_other)

lemma collect_step_source:
  "foldl (\<lambda>acc r. acc(page_projectKey r \<mapsto> g r)) m rs k = Some e \<Longrightarrow>
     m k = Some e \<or> (\<exists>r \<in> set rs. page_projectKey r = k \<and> e = g r)"
proof (induction rs arbitrary: m)
  case Nil
  then show ?case by simp
next
  case (Cons r rs)
  from Cons.prems
  have "foldl (\<lambda>acc r. acc(page_projectKey r \<mapsto> g r)) (m(page_projectKey r \<mapsto> g r)) rs k = Some e"
    by (simp only: foldl_Cons)
  from Cons.IH[OF this] show ?case
    by (auto split: if_splits)
qed

lemma collectPages_source:
  "collectPages rs k = Some e \<Longrightarrow>
     \<exists>r \<in> set rs. page_projectKey r = k
        \<and> e = \<lparr>allShown = page_isLastPage r, shown_repositories = page_repositories r\<rparr>"
  unfolding collectPages_def by (drule collect_step_source) simp

lemma collectPages_last:
  "page_projectKey r \<notin> page_projectKey ` set after \<Longrightarrow>
     collectPages (before @ r # after) (page_projectKey r)
       = Some \<lparr>allShown = page_isLastPage r, shown_repositories = page_repositories r\<rparr>"
  unfolding collectPages_def by (rule collect_step_last)

lemma collectPages_dom:
  "r \<in> set rs \<Longrightarrow> \<exists>e. collectPages rs (page_projectKey r) = Some e"
proof (induction rs rule: rev_induct)
  case Nil
  then show ?case by simp
next
  case (snoc x xs)
  then show ?case by (auto simp: collectPages_def)
qed


lemma projectPage_simps:
  "page_repositories (projectPage PAGE p answer) =
     filter (\<lambda>r. projectKey r = project_key p) (repositories answer)"
  "page_isLastPage (projectPage PAGE p answer) =
     (isLastPage answer \<or>
      int (length (filter (\<lambda>r. projectKey r = project_key p) (repositories answer))) < PAGE)"
  "page_projectKey (projectPage PAGE p answer) = project_key p"
  by (simp_all add: projectPage_def Let_def)

lemma fetch_pages:
  assumes "fetchBitbucketRepositories PAGE getRepos st projs = Inr (Some result)"
  shows "\<exists>setting pages. bitbucketSetting st = Some setting
           \<and> list_all2 (\<lambda>p r. \<exists>a. snd (getRepos (setting_key setting) (project_name p)) = Inr a
                                  \<and> r = projectPage PAGE p a) projs pages
           \<and> result = collectPages pages"
proof -
  from assms obtain setting where setting: "bitbucketSetting st = Some setting"
    by (auto simp: fetchBitbucketRepositories_def split: option.splits)
  let ?f = "\<lambda>p. case getRepos (setting_key setting) (project_name p) of
                   (t, Inl e) \<Rightarrow> (t, Inl e)
                 | (t, Inr answer) \<Rightarrow> (t, Inr (projectPage PAGE p answer))"
  from assms setting obtain pages where
    all: "promise_all (map ?f projs) = Inr pages" and result: "result = collectPages pages"
    by (auto simp: fetchBitbucketRepositories_def split: sum.splits)
  from promise_all_map[OF all]
  have "list_all2 (\<lambda>p r. snd (?f p) = Inr r) projs pages" .
  then have "list_all2 (\<lambda>p r. \<exists>a. snd (getRepos (setting_key setting) (project_name p)) = Inr a
                                  \<and> r = projectPage PAGE p a) projs pages"
    by (rule list_all2_mono) (auto split: sum.splits prod.splits)
  with setting result show ?thesis by blast
qed

lemma list_all2_right:
  "list_all2 P xs ys \<Longrightarrow> y \<in> set ys \<Longrightarrow> \<exists>x \<in> set xs. P x y"
  by (induction rule: list_all2_induct) auto

lemma list_all2_left:
  "list_all2 P xs ys \<Longrightarrow> x \<in> set xs \<Longrightarrow> \<exists>y \<in> set ys. P x y"
  by (induction rule: list_all2_induct) auto

text \<open>
  C9. For every project \<open>p\<close> and every answer of the backend, the object computed for
  \<open>p\<close> holds only repositories whose \<^verbatim>\<open>projectKey\<close> is the key of \<open>p\<close>, and its flag
  (\<^verbatim>\<open>allShown\<close> in the result) is true exactly when the backend said \<^verbatim>\<open>isLastPage\<close> or
  fewer repositories than \<^verbatim>\<open>DEFAULT_BBS_PAGE_SIZE\<close> are left after the filter. When
  \<^verbatim>\<open>fetchBitbucketRepositories\<close> resolves with an object: every project of the list has
  an entry under its key, and all repositories of that entry carry that key; every entry
  is the object computed for a project of the list with that key from the answer the
  backend gave for it; and for a project with no later project of the same key in the
  list (every project, when the keys differ) the entry under its key is its own.
\<close>

theorem fetchBitbucketRepositories_filters_on_key:
  "(\<forall>r \<in> set (page_repositories (projectPage PAGE p answer)). projectKey r = project_key p)
   \<and> page_isLastPage (projectPage PAGE p answer) =
       (isLastPage answer \<or> int (length (page_repositories (projectPage PAGE p answer))) < PAGE)
   \<and> (fetchBitbucketRepositories PAGE getRepos st projs = Inr (Some result) \<longrightarrow>
        (\<forall>q \<in> set projs. \<exists>entry. result (project_key q) = Some entry
            \<and> (\<forall>r \<in> set (shown_repositories entry). projectKey r = project_key q))
      \<and> (\<forall>k entry. result k = Some entry \<longrightarrow>
            (\<exists>q \<in> set projs. \<exists>setting a. project_key q = k
                \<and> bitbucketSetting st = Some setting
                \<and> snd (getRepos (setting_key setting) (project_name q)) = Inr a
                \<and> entry = \<lparr>allShown = page_isLastPage (projectPage PAGE q a),
                            shown_repositories = page_repositories (projectPage PAGE q a)\<rparr>))
      \<and> (\<forall>before q after. projs = before @ q # after
              \<and> project_key q \<notin> project_key ` set after \<longrightarrow>
            (\<exists>setting a. bitbucketSetting st = Some setting
                \<and> snd (getRepos (setting_key setting) (project_name q)) = Inr a
                \<and> result (project_key q) =
                    Some \<lparr>allShown = page_isLastPage (projectPage PAGE q a),
                          shown_repositories = page_repositories (projectPage PAGE q a)\<rparr>)))"
proof (intro conjI impI)
  show "\<forall>r \<in> set (page_repositories (projectPage PAGE p answer)). projectKey r = project_key p"
    by (simp add: projectPage_simps)
  show "page_isLastPage (projectPage PAGE p answer) =
       (isLastPage answer \<or> int (length (page_repositories (projectPage PAGE p answer))) < PAGE)"
    by (simp add: projectPage_simps)
next
  assume fetch: "fetchBitbucketRepositories PAGE getRepos st projs = Inr (Some result)"
  from fetch_pages[OF fetch] obtain setting pages where
    setting: "bitbucketSetting st = Some setting" and
    rel: "list_all2 (\<lambda>p r. \<exists>a. snd (getRepos (setting_key setting) (project_name p)) = Inr a
                                  \<and> r = projectPage PAGE p a) projs pages" and
    result: "result = collectPages pages"
    by blast
  have source: "\<exists>q \<in> set projs. \<exists>a. project_key q = k
                \<and> snd (getRepos (setting_key setting) (project_name q)) = Inr a
                \<and> entry = \<lparr>allShown = page_isLastPage (projectPage PAGE q a),
                            shown_repositories = page_repositories (projectPage PAGE q a)\<rparr>"
    if "result k = Some entry" for k entry
  proof -
    from that result collectPages_source obtain r where
      r: "r \<in> set pages" "page_projectKey r = k"
         "entry = \<lparr>allShown = page_isLastPage r, shown_repositories = page_repositories r\<rparr>"
      by blast
    from list_all2_right[OF rel r(1)] obtain q a where
      "q \<in> set projs" "snd (getRepos (setting_key setting) (project_name q)) = Inr a"
      "r = projectPage PAGE q a"
      by blast
    with r show ?thesis by (auto simp: projectPage_simps)
  qed
  show "\<forall>q \<in> set projs. \<exists>entry. result (project_key q) = Some entry
            \<and> (\<forall>r \<in> set (shown_repositories entry). projectKey r = project_key q)"
  proof
    fix q assume "q \<in> set projs"
    from list_all2_left[OF rel this] obtain r where
      "r \<in> set pages" "page_projectKey r = project_key q"
      by (auto simp: projectPage_simps)
    with collectPages_dom[of r pages] result obtain entry where
      entry: "result (project_key q) = Some entry" by auto
    from source[OF entry] have "\<forall>r \<in> set (shown_repositories entry). projectKey r = project_key q"
      by (auto simp: projectPage_simps)
    with entry show "\<exists>entry. result (project_key q) = Some entry
            \<and> (\<forall>r \<in> set (shown_repositories entry). projectKey r = project_key q)"
      by blast
  qed
  show "\<forall>k entry. result k = Some entry \<longrightarrow>
            (\<exists>q \<in> set projs. \<exists>setting a. project_key q = k
                \<and> bitbucketSetting st = Some setting
                \<and> snd (getRepos (setting_key setting) (project_name q)) = Inr a
                \<and> entry = \<lparr>allShown = page_isLastPage (projectPage PAGE q a),
                            shown_repositories = page_repositories (projectPage PAGE q a)\<rparr>)"
    using source setting by blast
  show "\<forall>before q after. projs = before @ q # after
              \<and> project_key q \<notin> project_key ` set after \<longrightarrow>
            (\<exists>setting a. bitbucketSetting st = Some setting
                \<and> snd (getRepos (setting_key setting) (project_name q)) = Inr a
                \<and> result (project_key q) =
                    Some \<lparr>allShown = page_isLastPage (projectPage PAGE q a),
                          shown_repositories = page_repositories (projectPage PAGE q a)\<rparr>)"
  proof (intro allI impI, elim conjE)
    fix before q after
    assume split: "projs = before @ q # after"
      and last: "project_key q \<notin> project_key ` set after"
    from rel[unfolded split] obtain pb r pa where
      pages: "pages = pb @ r # pa" and
      q: "\<exists>a. snd (getRepos (setting_key setting) (project_name q)) = Inr a \<and> r = projectPage PAGE q a" and
      rest: "list_all2 (\<lambda>p r. \<exists>a. snd (getRepos (setting_key setting) (project_name p)) = Inr a
                                  \<and> r = projectPage PAGE p a) after pa"
      by (auto simp: list_all2_append1 list_all2_Cons1)
    from q obtain a where
      a: "snd (getRepos (setting_key setting) (project_name q)) = Inr a" "r = projectPage PAGE q a"
      by blast
    have "page_projectKey r \<notin> page_projectKey ` set pa"
    proof
      assume "page_projectKey r \<in> page_projectKey ` set pa"
      then obtain r' where r': "r' \<in> set pa" "page_projectKey r' = page_projectKey r" by auto
      from list_all2_right[OF rest r'(1)] obtain q' where
        q': "q' \<in> set after" "page_projectKey r' = project_key q'"
        by (auto simp: projectPage_simps)
      from r'(2) q'(2) a(2) have "project_key q = project_key q'"
        by (simp add: projectPage_simps)
      with q'(1) last show False by auto
    qed
    from collectPages_last[OF this, of pb] have
      "result (project_key q) =
         Some \<lparr>allShown = page_isLastPage r, shown_repositories = page_repositories r\<rparr>"
      by (simp add: result pages a projectPage_simps)
    with a setting show "\<exists>setting a. bitbucketSetting st = Some setting
                \<and> snd (getRepos (setting_key setting) (project_name q)) = Inr a
                \<and> result (project_key q) =
                    Some \<lparr>allShown = page_isLastPage (projectPage PAGE q a),
                          shown_repositories = page_repositories (projectPage PAGE q a)\<rparr>"
      by blast
  qed
qed

text \<open>The theorem at work, with a page size of 25: the backend answers for the name of
  project \<^verbatim>\<open>A1\<close> with a repository of \<^verbatim>\<open>A1\<close> and one of \<^verbatim>\<open>A10\<close> and says that more
  pages follow; for the other project it answers with a full page of its repositories.\<close>

theorem fetchBitbucketRepositories_filters_on_key_witness:
  "fetchBitbucketRepositories 25
     (\<lambda>k n. if n = ''Alpha 1''
        then (3, Inr \<lparr>isLastPage = False,
                repositories = [\<lparr>projectKey = ''A1'', slug = ''one''\<rparr>,
                                \<lparr>projectKey = ''A10'', slug = ''ten''\<rparr>]\<rparr>
              :: unit + RepositoriesPage)
        else (1, Inr \<lparr>isLastPage = False,
                repositories = replicate 25 \<lparr>projectKey = ''A10'', slug = ''ten''\<rparr>\<rparr>))
     (initialState [\<lparr>setting_key = ''bbs''\<rparr>])
     [\<lparr>project_key = ''A1'', project_name = ''Alpha 1''\<rparr>,
      \<lparr>project_key = ''A10'', project_name = ''Alpha 10''\<rparr>]
   = Inr (Some [''A1'' \<mapsto> \<lparr>allShown = True,
                   shown_repositories = [\<lparr>projectKey = ''A1'', slug = ''one''\<rparr>]\<rparr>,
                ''A10'' \<mapsto> \<lparr>allShown = False,
                   shown_repositories = replicate 25 \<lparr>projectKey = ''A10'', slug = ''ten''\<rparr>\<rparr>])
   \<and> page_repositories (projectPage 25 \<lparr>project_key = ''A1'', project_name = ''Alpha 1''\<rparr>
         \<lparr>isLastPage = False,
           repositories = [\<lparr>projectKey = ''A1'', slug = ''one''\<rparr>,
                           \<lparr>projectKey = ''A10'', slug = ''ten''\<rparr>]\<rparr>)
     = [\<lparr>projectKey = ''A1'', slug = ''one''\<rparr>]
   \<and> page_isLastPage (projectPage 25 \<lparr>project_key = ''A1'', project_name = ''Alpha 1''\<rparr>
         \<lparr>isLastPage = False,
           repositories = [\<lparr>projectKey = ''A1'', slug = ''one''\<rparr>,
                           \<lparr>projectKey = ''A10'', slug = ''ten''\<rparr>]\<rparr>)
   \<and> [''A1'' \<mapsto> \<lparr>allShown = True,
                   shown_repositories = [\<lparr>projectKey = ''A1'', slug = ''one''\<rparr>]\<rparr>,
       ''A10'' \<mapsto> \<lparr>allShown = False,
                   shown_repositories = replicate 25 \<lparr>projectKey = ''A10'', slug = ''ten''\<rparr>\<rparr>]
        ''A1''
     = Some \<lparr>allShown = True, shown_repositories = [\<lparr>projectKey = ''A1'', slug = ''one''\<rparr>]\<rparr>"
proof -
  let ?get = "\<lambda>(k::string) (n::string). if n = ''Alpha 1''
        then (3::nat, Inr \<lparr>isLastPage = False,
                repositories = [\<lparr>projectKey = ''A1'', slug = ''one''\<rparr>,
                                \<lparr>projectKey = ''A10'', slug = ''ten''\<rparr>]\<rparr>
              :: unit + RepositoriesPage)
        else (1, Inr \<lparr>isLastPage = False,
                repositories = replicate 25 \<lparr>projectKey = ''A10'', slug = ''ten''\<rparr>\<rparr>)"
  let ?A1 = "\<lparr>project_key = ''A1'', project_name = ''Alpha 1''\<rparr>"
  let ?A10 = "\<lparr>project_key = ''A10'', project_name = ''Alpha 10''\<rparr>"
  let ?result = "[''A1'' \<mapsto> \<lparr>allShown = True,
                   shown_repositories = [\<lparr>projectKey = ''A1'', slug = ''one''\<rparr>]\<rparr>,
                ''A10'' \<mapsto> \<lparr>allShown = False,
                   shown_repositories = replicate 25 \<lparr>projectKey = ''A10'', slug = ''ten''\<rparr>\<rparr>]"
  have fetch: "fetchBitbucketRepositories 25 ?get (initialState [\<lparr>setting_key = ''bbs''\<rparr>])
      [?A1, ?A10] = Inr (Some ?result)"
    by (simp add: fetchBitbucketRepositories_def initialState_def projectPage_def
          collectPages_def promise_all_def Let_def)
  note inst = fetchBitbucketRepositories_filters_on_key[of 25 ?A1
      "\<lparr>isLastPage = False,
                repositories = [\<lparr>projectKey = ''A1'', slug = ''one''\<rparr>,
                                \<lparr>projectKey = ''A10'', slug = ''ten''\<rparr>]\<rparr>"
      ?get "initialState [\<lparr>setting_key = ''bbs''\<rparr>]" "[?A1, ?A10]" ?result]
  from inst[THEN conjunct2, THEN conjunct2, rule_format, OF fetch]
  have last: "\<forall>before q after. [?A1, ?A10] = before @ q # after
              \<and> project_key q \<notin> project_key ` set after \<longrightarrow>
            (\<exists>setting a. bitbucketSetting (initialState [\<lparr>setting_key = ''bbs''\<rparr>]) = Some setting
                \<and> snd (?get (setting_key setting) (project_name q)) = Inr a
                \<and> ?result (project_key q) =
                    Some \<lparr>allShown = page_isLastPage (projectPage 25 q a),
                          shown_repositories = page_repositories (projectPage 25 q a)\<rparr>)"
    by blast
  have "[?A1, ?A10] = [] @ ?A1 # [?A10] \<and> project_key ?A1 \<notin> project_key ` set [?A10]"
    by simp
  from last[rule_format, OF this]
  have entry: "?result ''A1'' =
      Some \<lparr>allShown = page_isLastPage (projectPage 25 ?A1
                \<lparr>isLastPage = False,
                  repositories = [\<lparr>projectKey = ''A1'', slug = ''one''\<rparr>,
                                  \<lparr>projectKey = ''A10'', slug = ''ten''\<rparr>]\<rparr>),
            shown_repositories = page_repositories (projectPage 25 ?A1
                \<lparr>isLastPage = False,
                  repositories = [\<lparr>projectKey = ''A1'', slug = ''one''\<rparr>,
                                  \<lparr>projectKey = ''A10'', slug = ''ten''\<rparr>]\<rparr>)\<rparr>"
    by auto
  have repos: "page_repositories (projectPage 25 ?A1
         \<lparr>isLastPage = False,
           repositories = [\<lparr>projectKey = ''A1'', slug = ''one''\<rparr>,
                           \<lparr>projectKey = ''A10'', slug = ''ten''\<rparr>]\<rparr>)
     = [\<lparr>projectKey = ''A1'', slug = ''one''\<rparr>]"
    by (simp add: projectPage_simps)
  have flag: "page_isLastPage (projectPage 25 ?A1
         \<lparr>isLastPage = False,
           repositories = [\<lparr>projectKey = ''A1'', slug = ''one''\<rparr>,
                           \<lparr>projectKey = ''A10'', slug = ''ten''\<rparr>]\<rparr>)"
    by (simp add: projectPage_simps)
  from entry have "?result ''A1'' =
      Some \<lparr>allShown = True, shown_repositories = [\<lparr>projectKey = ''A1'', slug = ''one''\<rparr>]\<rparr>"
    by (simp only: repos flag)
  with fetch repos flag show ?thesis by blast
qed

subsection \<open>The search with an empty query\<close>

text \<open>
  C10 (as amended). For every call \<^verbatim>\<open>handleSearch(query)\<close> with an empty query made while
  \<^verbatim>\<open>bitbucketSetting\<close> is set, the new state is the old one with \<^verbatim>\<open>searching\<close> false and
  \<^verbatim>\<open>searchResults\<close> and \<^verbatim>\<open>selectedRepository\<close> undefined, every other field as it was,
  and no request is sent. While \<^verbatim>\<open>bitbucketSetting\<close> is undefined, \<^verbatim>\<open>handleSearch\<close>
  returns at once for every query: the state is unchanged and no request is sent.
\<close>

theorem handleSearch_empty_query:
  "(bitbucketSetting st = Some setting \<longrightarrow>
      handleSearch [] st =
        (st\<lparr>searching := False, searchResults := None, selectedRepository := None\<rparr>, []))
   \<and> (bitbucketSetting st = None \<longrightarrow> handleSearch query st = (st, []))"
  by (simp add: handleSearch_def)

theorem handleSearch_empty_query_witness:
  "bitbucketSetting (handleSelectRepository \<lparr>projectKey = ''A1'', slug = ''one''\<rparr>
      (initialState [\<lparr>setting_key = ''bbs''\<rparr>])) = Some \<lparr>setting_key = ''bbs''\<rparr>
   \<and> handleSearch [] (handleSelectRepository \<lparr>projectKey = ''A1'', slug = ''one''\<rparr>
        (initialState [\<lparr>setting_key = ''bbs''\<rparr>]))
     = (initialState [\<lparr>setting_key = ''bbs''\<rparr>], [])
   \<and> bitbucketSetting (initialState []) = None
   \<and> handleSearch ''sonar'' (initialState []) = (initialState [], [])"
proof -
  have h1: "bitbucketSetting (handleSelectRepository \<lparr>projectKey = ''A1'', slug = ''one''\<rparr>
      (initialState [\<lparr>setting_key = ''bbs''\<rparr>])) = Some \<lparr>setting_key = ''bbs''\<rparr>"
    by (simp add: handleSelectRepository_def initialState_def)
  have h2: "bitbucketSetting (initialState []) = None"
    by (simp add: initialState_def)
  from handleSearch_empty_query[THEN conjunct1, rule_format, OF h1]
       handleSearch_empty_query[THEN conjunct2, rule_format, OF h2, of "''sonar''"] h1 h2
  show ?thesis by (simp add: handleSelectRepository_def initialState_def)
qed

text \<open>
  The claim as it was stated (every call with an empty query clears the selected
  repository) fails: a component constructed with no setting, on which a repository has
  been selected, keeps its state, selection included, when \<^verbatim>\<open>handleSearch\<close> is called
  with the empty query.
\<close>

theorem handleSearch_without_setting_keeps_selection:
  "handleSearch [] (handleSelectRepository \<lparr>projectKey = ''A1'', slug = ''one''\<rparr> (initialState []))
     = (handleSelectRepository \<lparr>projectKey = ''A1'', slug = ''one''\<rparr> (initialState []), [])
   \<and> selectedRepository (fst (handleSearch []
        (handleSelectRepository \<lparr>projectKey = ''A1'', slug = ''one''\<rparr> (initialState []))))
     = Some \<lparr>projectKey = ''A1'', slug = ''one''\<rparr>"
  by (simp add: handleSearch_def handleSelectRepository_def initialState_def)

end
